theory Spec2Isabelle
  imports Main
begin

section \<open>KonomiTV client: the channel service (client/src/services/Channels.ts)\<close>

text \<open>
  The service is a class of four static asynchronous operations over a shared API client.
  Each one issues a single request, inspects the tag of the response, and either reports
  the error through the client's generic notification and returns null, or returns the
  payload of the response.

  Conventions of the embedding:
  \<^item> a TypeScript interface is a record, with the fields in the order of the source;
  \<^item> \<open>T | null\<close> is \<open>T option\<close>, with \<open>None\<close> for null;
  \<^item> a JavaScript string is a \<open>string\<close>; a character outside ASCII is the bytes of
    its UTF-8 encoding, written \<open>CHR 0x..\<close>. The service only concatenates and passes
    strings on, which the encoding commutes with;
  \<^item> a JavaScript number is an \<open>int\<close>: the service does no arithmetic on numbers;
  \<^item> the union of string literals \<open>ChannelType\<close> is a \<open>string\<close>, with the predicate
    \<open>is_ChannelType\<close> for membership: the type is erased when the service runs, and the
    payload of a response is whatever the backend sent;
  \<^item> field names that clash with a constant of HOL or a keyword carry a prime
    (\<open>id'\<close>, \<open>text'\<close>, \<open>size'\<close>).
\<close>

subsection \<open>Data model\<close>

text \<open>\<open>ChannelType = 'GR' | 'BS' | 'CS' | 'CATV' | 'SKY' | 'STARDIGIO'\<close>\<close>

definition ChannelType :: "string list" where
  "ChannelType = [''GR'', ''BS'', ''CS'', ''CATV'', ''SKY'', ''STARDIGIO'']"

definition is_ChannelType :: "string \<Rightarrow> bool" where
  "is_ChannelType t = (t \<in> set ChannelType)"

text \<open>\<open>interface IChannel\<close>\<close>

record IChannel =
  id' :: string
  display_channel_id :: string
  network_id :: int
  service_id :: int
  transport_stream_id :: "int option"
  remocon_id :: int
  channel_number :: string
  type :: string
  name :: string
  jikkyo_force :: "int option"
  is_subchannel :: bool
  is_radiochannel :: bool
  is_watchable :: bool

text \<open>
  \<open>interface ILiveChannel extends IChannel\<close>. The interface \<open>IProgram\<close> is imported from
  the programs service, which is not part of the sources at hand: it is the type
  parameter \<open>'p\<close>.
\<close>

record 'p ILiveChannel = IChannel +
  is_display :: bool
  viewer_count :: int
  program_present :: "'p option"
  program_following :: "'p option"

text \<open>
  \<open>const ILiveChannelDefault: ILiveChannel\<close>, the value shown while the channels are being
  fetched. The source fills both program slots with the constant \<open>IProgramDefault\<close>
  imported from the programs service; it is the parameter of the definition. The name is
  the Japanese for "fetching...", followed by a horizontal ellipsis (U+2026).
\<close>

definition ILiveChannelDefault :: "'p \<Rightarrow> 'p ILiveChannel" where
  "ILiveChannelDefault IProgramDefault = \<lparr>
     id' = ''NID0-SID0'',
     display_channel_id = ''gr000'',
     network_id = 0,
     service_id = 0,
     transport_stream_id = None,
     remocon_id = 0,
     channel_number = ''---'',
     type = ''GR'',
     name = [
       CHR 0xE5, CHR 0x8F, CHR 0x96, CHR 0xE5, CHR 0xBE, CHR 0x97, CHR 0xE4, CHR 0xB8,
       CHR 0xAD, CHR 0xE2, CHR 0x80, CHR 0xA6],
     jikkyo_force = None,
     is_subchannel = False,
     is_radiochannel = False,
     is_watchable = True,
     is_display = True,
     viewer_count = 0,
     program_present = Some IProgramDefault,
     program_following = Some IProgramDefault
   \<rparr>"

text \<open>\<open>interface ILiveChannelsList\<close>: one array of live channels per channel type.\<close>

record 'p ILiveChannelsList =
  GR :: "'p ILiveChannel list"
  BS :: "'p ILiveChannel list"
  CS :: "'p ILiveChannel list"
  CATV :: "'p ILiveChannel list"
  SKY :: "'p ILiveChannel list"
  STARDIGIO :: "'p ILiveChannel list"

text \<open>\<open>interface IJikkyoWebSocketInfo\<close>\<close>

record IJikkyoWebSocketInfo =
  websocket_url :: "string option"
  is_nxjikkyo_exclusive :: bool

text \<open>\<open>interface IJikkyoSendCommentRequest\<close>\<close>

record IJikkyoSendCommentRequest =
  text' :: string
  color :: string
  position :: string
  size' :: string
  vpos :: int

text \<open>\<open>interface IJikkyoSendCommentResult\<close>\<close>

record IJikkyoSendCommentResult =
  is_success :: bool
  detail :: string

subsection \<open>The API client\<close>

text \<open>
  Modelled from the spec: the module \<open>@/services/APIClient\<close> is not part of the sources at
  hand. The spec describes it as "a shared generic API client that returns either a
  typed success payload or an error envelope (\<open>type: 'error'\<close>)", whose envelope shape
  "is owned by the transport collaborator": the envelope is the type parameter \<open>'e\<close>.
\<close>

datatype ('e, 'a) APIResponse =
    ErrorResponse 'e
  | SuccessResponse 'a

text \<open>
  A request as the service hands it to the client: \<open>APIClient.get(url)\<close> or
  \<open>APIClient.post(url, data)\<close>. The only body the service ever posts is a comment.
\<close>

datatype request =
    GET string
  | POST string IJikkyoSendCommentRequest

text \<open>
  What an operation does to the world around it: the requests it has handed to the API
  client and the notifications it has asked the client to show, oldest first. A
  notification is the pair of arguments of \<open>APIClient.showGenericError\<close>: the error
  envelope and the message of the operation.
\<close>

record 'e effects =
  requests :: "request list"
  notifications :: "('e \<times> string) list"

text \<open>
  Modelled from the spec: \<open>APIClient.get\<close> and \<open>APIClient.post\<close>. The backend behind the
  client is the function \<open>api\<close> from the request to the response that the awaited call
  resolves to; the call is recorded.
\<close>

definition APIClient_get ::
  "(request \<Rightarrow> ('e, 'a) APIResponse) \<Rightarrow> string \<Rightarrow> 'e effects
    \<Rightarrow> ('e, 'a) APIResponse \<times> 'e effects" where
  "APIClient_get api url s = (api (GET url), s\<lparr>requests := requests s @ [GET url]\<rparr>)"

definition APIClient_post ::
  "(request \<Rightarrow> ('e, 'a) APIResponse) \<Rightarrow> string \<Rightarrow> IJikkyoSendCommentRequest \<Rightarrow> 'e effects
    \<Rightarrow> ('e, 'a) APIResponse \<times> 'e effects" where
  "APIClient_post api url data s =
     (api (POST url data), s\<lparr>requests := requests s @ [POST url data]\<rparr>)"

text \<open>
  Modelled from the spec: \<open>APIClient.showGenericError\<close>, "a generic user-facing
  notification"; one call is one notification.
\<close>

definition showGenericError :: "'e \<Rightarrow> string \<Rightarrow> 'e effects \<Rightarrow> 'e effects" where
  "showGenericError error_response template s =
     s\<lparr>notifications := notifications s @ [(error_response, template)]\<rparr>"

subsection \<open>The four operations\<close>

text \<open>
  The message each operation passes to \<open>showGenericError\<close>, as the string literal of its
  own call site. In English: "Could not retrieve the channel information." (fetchAll and
  fetch), "Could not retrieve the information of the WebSocket API for receiving
  comments." and "Failed to send the comment to Niconico Jikkyo.".
\<close>

definition fetchAll_message :: string where
  "fetchAll_message = [
     CHR 0xE3, CHR 0x83, CHR 0x81, CHR 0xE3, CHR 0x83, CHR 0xA3, CHR 0xE3, CHR 0x83,
     CHR 0xB3, CHR 0xE3, CHR 0x83, CHR 0x8D, CHR 0xE3, CHR 0x83, CHR 0xAB, CHR 0xE6,
     CHR 0x83, CHR 0x85, CHR 0xE5, CHR 0xA0, CHR 0xB1, CHR 0xE3, CHR 0x82, CHR 0x92,
     CHR 0xE5, CHR 0x8F, CHR 0x96, CHR 0xE5, CHR 0xBE, CHR 0x97, CHR 0xE3, CHR 0x81,
     CHR 0xA7, CHR 0xE3, CHR 0x81, CHR 0x8D, CHR 0xE3, CHR 0x81, CHR 0xBE, CHR 0xE3,
     CHR 0x81, CHR 0x9B, CHR 0xE3, CHR 0x82, CHR 0x93, CHR 0xE3, CHR 0x81, CHR 0xA7,
     CHR 0xE3, CHR 0x81, CHR 0x97, CHR 0xE3, CHR 0x81, CHR 0x9F, CHR 0xE3, CHR 0x80,
     CHR 0x82]"

definition fetch_message :: string where
  "fetch_message = [
     CHR 0xE3, CHR 0x83, CHR 0x81, CHR 0xE3, CHR 0x83, CHR 0xA3, CHR 0xE3, CHR 0x83,
     CHR 0xB3, CHR 0xE3, CHR 0x83, CHR 0x8D, CHR 0xE3, CHR 0x83, CHR 0xAB, CHR 0xE6,
     CHR 0x83, CHR 0x85, CHR 0xE5, CHR 0xA0, CHR 0xB1, CHR 0xE3, CHR 0x82, CHR 0x92,
     CHR 0xE5, CHR 0x8F, CHR 0x96, CHR 0xE5, CHR 0xBE, CHR 0x97, CHR 0xE3, CHR 0x81,
     CHR 0xA7, CHR 0xE3, CHR 0x81, CHR 0x8D, CHR 0xE3, CHR 0x81, CHR 0xBE, CHR 0xE3,
     CHR 0x81, CHR 0x9B, CHR 0xE3, CHR 0x82, CHR 0x93, CHR 0xE3, CHR 0x81, CHR 0xA7,
     CHR 0xE3, CHR 0x81, CHR 0x97, CHR 0xE3, CHR 0x81, CHR 0x9F, CHR 0xE3, CHR 0x80,
     CHR 0x82]"

definition fetchJikkyoWebSocketInfo_message :: string where
  "fetchJikkyoWebSocketInfo_message = [
     CHR 0xE3, CHR 0x82, CHR 0xB3, CHR 0xE3, CHR 0x83, CHR 0xA1, CHR 0xE3, CHR 0x83,
     CHR 0xB3, CHR 0xE3, CHR 0x83, CHR 0x88, CHR 0xE5, CHR 0x8F, CHR 0x97, CHR 0xE4,
     CHR 0xBF, CHR 0xA1, CHR 0xE7, CHR 0x94, CHR 0xA8, CHR 0x20, CHR ''W'', CHR ''e'',
     CHR ''b'', CHR ''S'', CHR ''o'', CHR ''c'', CHR ''k'', CHR ''e'', CHR ''t'', CHR 0x20,
     CHR ''A'', CHR ''P'', CHR ''I'', CHR 0x20, CHR 0xE3, CHR 0x81, CHR 0xAE, CHR 0xE6,
     CHR 0x83, CHR 0x85, CHR 0xE5, CHR 0xA0, CHR 0xB1, CHR 0xE3, CHR 0x82, CHR 0x92,
     CHR 0xE5, CHR 0x8F, CHR 0x96, CHR 0xE5, CHR 0xBE, CHR 0x97, CHR 0xE3, CHR 0x81,
     CHR 0xA7, CHR 0xE3, CHR 0x81, CHR 0x8D, CHR 0xE3, CHR 0x81, CHR 0xBE, CHR 0xE3,
     CHR 0x81, CHR 0x9B, CHR 0xE3, CHR 0x82, CHR 0x93, CHR 0xE3, CHR 0x81, CHR 0xA7,
     CHR 0xE3, CHR 0x81, CHR 0x97, CHR 0xE3, CHR 0x81, CHR 0x9F, CHR 0xE3, CHR 0x80,
     CHR 0x82]"

definition sendJikkyoComment_message :: string where
  "sendJikkyoComment_message = [
     CHR 0xE3, CHR 0x83, CHR 0x8B, CHR 0xE3, CHR 0x82, CHR 0xB3, CHR 0xE3, CHR 0x83,
     CHR 0x8B, CHR 0xE3, CHR 0x82, CHR 0xB3, CHR 0xE5, CHR 0xAE, CHR 0x9F, CHR 0xE6,
     CHR 0xB3, CHR 0x81, CHR 0xE3, CHR 0x81, CHR 0xB8, CHR 0xE3, CHR 0x81, CHR 0xAE,
     CHR 0xE3, CHR 0x82, CHR 0xB3, CHR 0xE3, CHR 0x83, CHR 0xA1, CHR 0xE3, CHR 0x83,
     CHR 0xB3, CHR 0xE3, CHR 0x83, CHR 0x88, CHR 0xE9, CHR 0x80, CHR 0x81, CHR 0xE4,
     CHR 0xBF, CHR 0xA1, CHR 0xE3, CHR 0x81, CHR 0xAB, CHR 0xE5, CHR 0xA4, CHR 0xB1,
     CHR 0xE6, CHR 0x95, CHR 0x97, CHR 0xE3, CHR 0x81, CHR 0x97, CHR 0xE3, CHR 0x81,
     CHR 0xBE, CHR 0xE3, CHR 0x81, CHR 0x97, CHR 0xE3, CHR 0x81, CHR 0x9F, CHR 0xE3,
     CHR 0x80, CHR 0x82]"

text \<open>
  Each operation awaits the response of its request, then tests
  \<open>response.type === 'error'\<close>: on an error it calls \<open>showGenericError\<close> and returns null,
  otherwise it returns \<open>response.data\<close>. The result is paired with the effects. The
  bodies have no \<open>throw\<close>, and the client resolves to a response of one of the two kinds,
  so there is no third outcome.
\<close>

definition fetchAll ::
  "(request \<Rightarrow> ('e, 'p ILiveChannelsList) APIResponse) \<Rightarrow> 'e effects
    \<Rightarrow> 'p ILiveChannelsList option \<times> 'e effects" where
  "fetchAll api s =
     (case APIClient_get api ''/channels'' s of
        (ErrorResponse response, s1) \<Rightarrow> (None, showGenericError response fetchAll_message s1)
      | (SuccessResponse data, s1) \<Rightarrow> (Some data, s1))"

definition fetch ::
  "(request \<Rightarrow> ('e, 'p ILiveChannel) APIResponse) \<Rightarrow> string \<Rightarrow> 'e effects
    \<Rightarrow> 'p ILiveChannel option \<times> 'e effects" where
  "fetch api channel_id s =
     (case APIClient_get api (''/channels/'' @ channel_id) s of
        (ErrorResponse response, s1) \<Rightarrow> (None, showGenericError response fetch_message s1)
      | (SuccessResponse data, s1) \<Rightarrow> (Some data, s1))"

definition fetchJikkyoWebSocketInfo ::
  "(request \<Rightarrow> ('e, IJikkyoWebSocketInfo) APIResponse) \<Rightarrow> string \<Rightarrow> 'e effects
    \<Rightarrow> IJikkyoWebSocketInfo option \<times> 'e effects" where
  "fetchJikkyoWebSocketInfo api channel_id s =
     (case APIClient_get api (''/channels/'' @ channel_id @ ''/jikkyo'') s of
        (ErrorResponse response, s1) \<Rightarrow>
          (None, showGenericError response fetchJikkyoWebSocketInfo_message s1)
      | (SuccessResponse data, s1) \<Rightarrow> (Some data, s1))"

definition sendJikkyoComment ::
  "(request \<Rightarrow> ('e, IJikkyoSendCommentResult) APIResponse) \<Rightarrow> string
    \<Rightarrow> IJikkyoSendCommentRequest \<Rightarrow> 'e effects
    \<Rightarrow> IJikkyoSendCommentResult option \<times> 'e effects" where
  "sendJikkyoComment api channel_id comment s =
     (case APIClient_post api (''/channels/'' @ channel_id @ ''/jikkyo/comment'') comment s of
        (ErrorResponse response, s1) \<Rightarrow>
          (None, showGenericError response sendJikkyoComment_message s1)
      | (SuccessResponse data, s1) \<Rightarrow> (Some data, s1))"

subsection \<open>The directory invariant\<close>

text \<open>
  The six buckets of a directory with their tags, in the order of the interface, and the
  two halves of the invariant of a channel directory: no identifier occurs twice over
  all the buckets, and every channel of a bucket carries the tag of that bucket in its
  \<open>type\<close> field.
\<close>

definition directory_buckets :: "'p ILiveChannelsList \<Rightarrow> (string \<times> 'p ILiveChannel list) list" where
  "directory_buckets d =
     [(''GR'', GR d), (''BS'', BS d), (''CS'', CS d),
      (''CATV'', CATV d), (''SKY'', SKY d), (''STARDIGIO'', STARDIGIO d)]"

definition directory_channels :: "'p ILiveChannelsList \<Rightarrow> 'p ILiveChannel list" where
  "directory_channels d = concat (map snd (directory_buckets d))"



subsection \<open>Concrete scenarios\<close>

text \<open>
  The state before a call, two backends (one that fails every request with the same
  envelope, one that answers every request with a given payload) and the payloads used
  to run the operations on concrete inputs. The envelope is a string and the programme
  type is \<open>unit\<close> there.
\<close>

definition no_effects :: "'e effects" where
  "no_effects = \<lparr>requests = [], notifications = []\<rparr>"

definition failing_api :: "request \<Rightarrow> (string, 'a) APIResponse" where
  "failing_api r = ErrorResponse ''Network Error''"

definition answering_api :: "'a \<Rightarrow> request \<Rightarrow> (string, 'a) APIResponse" where
  "answering_api payload r = SuccessResponse payload"

definition channel_nhk :: "unit ILiveChannel" where
  "channel_nhk = (ILiveChannelDefault ())\<lparr>
     id' := ''NID32736-SID1024'', display_channel_id := ''gr011'',
     network_id := 32736, service_id := 1024, remocon_id := 1,
     channel_number := ''011'', name := ''NHK'', viewer_count := 3\<rparr>"

definition channel_bs :: "unit ILiveChannel" where
  "channel_bs = (ILiveChannelDefault ())\<lparr>
     id' := ''NID4-SID101'', display_channel_id := ''bs101'',
     network_id := 4, service_id := 101, remocon_id := 1,
     channel_number := ''101'', type := ''BS'', name := ''NHK BS''\<rparr>"

definition directory_gr_bs :: "unit ILiveChannelsList" where
  "directory_gr_bs = \<lparr>GR = [channel_nhk], BS = [channel_bs], CS = [], CATV = [], SKY = [],
     STARDIGIO = []\<rparr>"


definition directory_unknown_tag :: "unit ILiveChannelsList" where
  "directory_unknown_tag = \<lparr>GR = [channel_nhk\<lparr>type := ''pinned''\<rparr>], BS = [], CS = [],
     CATV = [], SKY = [], STARDIGIO = []\<rparr>"

definition no_commentary :: IJikkyoWebSocketInfo where
  "no_commentary = \<lparr>websocket_url = None, is_nxjikkyo_exclusive = False\<rparr>"

definition rate_limited :: IJikkyoSendCommentResult where
  "rate_limited = \<lparr>is_success = False, detail = ''rate limited''\<rparr>"

definition comment_hello :: IJikkyoSendCommentRequest where
  "comment_hello = \<lparr>text' = ''hello'', color = ''white'', position = ''naka'',
     size' = ''medium'', vpos = 1200\<rparr>"

definition comment_malformed :: IJikkyoSendCommentRequest where
  "comment_malformed = \<lparr>text' = '''', color = ''white'', position = ''naka'',
     size' = ''medium'', vpos = - 1\<rparr>"

section \<open>Properties\<close>

subsection \<open>The two branches of each operation\<close>

lemma fetchAll_error:
  "api (GET ''/channels'') = ErrorResponse e \<Longrightarrow>
   fetchAll api s =
     (None, s\<lparr>requests := requests s @ [GET ''/channels''],
              notifications := notifications s @ [(e, fetchAll_message)]\<rparr>)"
  by (simp add: fetchAll_def APIClient_get_def showGenericError_def)

lemma fetchAll_success:
  "api (GET ''/channels'') = SuccessResponse d \<Longrightarrow>
   fetchAll api s = (Some d, s\<lparr>requests := requests s @ [GET ''/channels'']\<rparr>)"
  by (simp add: fetchAll_def APIClient_get_def)

lemma fetch_error:
  "api (GET (''/channels/'' @ channel_id)) = ErrorResponse e \<Longrightarrow>
   fetch api channel_id s =
     (None, s\<lparr>requests := requests s @ [GET (''/channels/'' @ channel_id)],
              notifications := notifications s @ [(e, fetch_message)]\<rparr>)"
  by (simp add: fetch_def APIClient_get_def showGenericError_def)

lemma fetch_success:
  "api (GET (''/channels/'' @ channel_id)) = SuccessResponse d \<Longrightarrow>
   fetch api channel_id s =
     (Some d, s\<lparr>requests := requests s @ [GET (''/channels/'' @ channel_id)]\<rparr>)"
  by (simp add: fetch_def APIClient_get_def)

lemma fetchJikkyoWebSocketInfo_error:
  "api (GET (''/channels/'' @ channel_id @ ''/jikkyo'')) = ErrorResponse e \<Longrightarrow>
   fetchJikkyoWebSocketInfo api channel_id s =
     (None, s\<lparr>requests := requests s @ [GET (''/channels/'' @ channel_id @ ''/jikkyo'')],
              notifications := notifications s @ [(e, fetchJikkyoWebSocketInfo_message)]\<rparr>)"
  by (simp add: fetchJikkyoWebSocketInfo_def APIClient_get_def showGenericError_def)

lemma fetchJikkyoWebSocketInfo_success:
  "api (GET (''/channels/'' @ channel_id @ ''/jikkyo'')) = SuccessResponse d \<Longrightarrow>
   fetchJikkyoWebSocketInfo api channel_id s =
     (Some d, s\<lparr>requests := requests s @ [GET (''/channels/'' @ channel_id @ ''/jikkyo'')]\<rparr>)"
  by (simp add: fetchJikkyoWebSocketInfo_def APIClient_get_def)

lemma sendJikkyoComment_error:
  "api (POST (''/channels/'' @ channel_id @ ''/jikkyo/comment'') comment) = ErrorResponse e \<Longrightarrow>
   sendJikkyoComment api channel_id comment s =
     (None, s\<lparr>requests :=
                 requests s @ [POST (''/channels/'' @ channel_id @ ''/jikkyo/comment'') comment],
              notifications := notifications s @ [(e, sendJikkyoComment_message)]\<rparr>)"
  by (simp add: sendJikkyoComment_def APIClient_post_def showGenericError_def)

lemma sendJikkyoComment_success:
  "api (POST (''/channels/'' @ channel_id @ ''/jikkyo/comment'') comment) = SuccessResponse d \<Longrightarrow>
   sendJikkyoComment api channel_id comment s =
     (Some d, s\<lparr>requests :=
                   requests s @ [POST (''/channels/'' @ channel_id @ ''/jikkyo/comment'') comment]\<rparr>)"
  by (simp add: sendJikkyoComment_def APIClient_post_def)

text \<open>
  Whatever the response, each operation hands exactly one request to the API client.
\<close>

lemma fetchAll_requests:
  "requests (snd (fetchAll api s)) = requests s @ [GET ''/channels'']"
  by (simp add: fetchAll_def APIClient_get_def showGenericError_def split: APIResponse.splits)

lemma fetch_requests:
  "requests (snd (fetch api channel_id s)) = requests s @ [GET (''/channels/'' @ channel_id)]"
  by (simp add: fetch_def APIClient_get_def showGenericError_def split: APIResponse.splits)

lemma fetchJikkyoWebSocketInfo_requests:
  "requests (snd (fetchJikkyoWebSocketInfo api channel_id s)) =
     requests s @ [GET (''/channels/'' @ channel_id @ ''/jikkyo'')]"
  by (simp add: fetchJikkyoWebSocketInfo_def APIClient_get_def showGenericError_def
      split: APIResponse.splits)

lemma sendJikkyoComment_requests:
  "requests (snd (sendJikkyoComment api channel_id comment s)) =
     requests s @ [POST (''/channels/'' @ channel_id @ ''/jikkyo/comment'') comment]"
  by (simp add: sendJikkyoComment_def APIClient_post_def showGenericError_def
      split: APIResponse.splits)

lemma failing_api_error: "failing_api r = ErrorResponse ''Network Error''"
  by (simp add: failing_api_def)

lemma answering_api_success: "answering_api payload r = SuccessResponse payload"
  by (simp add: answering_api_def)


subsection \<open>Failure and success (C1)\<close>

text \<open>
  C1. For each of the four operations, when the API client returns an error envelope the
  operation returns null and the notifications grow by exactly one entry, the envelope
  with the message of the operation; when the round trip succeeds the notifications are
  unchanged. The operations are total functions into a result and the effects: there is
  no outcome other than a value or null, so nothing is thrown at the caller.
\<close>

theorem transport_error_null_and_one_notification:
  "(api_all (GET ''/channels'') = ErrorResponse e \<longrightarrow>
      fst (fetchAll api_all s) = None \<and>
      notifications (snd (fetchAll api_all s)) = notifications s @ [(e, fetchAll_message)])
   \<and> (api_all (GET ''/channels'') = SuccessResponse directory \<longrightarrow>
      notifications (snd (fetchAll api_all s)) = notifications s)
   \<and> (api_one (GET (''/channels/'' @ channel_id)) = ErrorResponse e \<longrightarrow>
      fst (fetch api_one channel_id s) = None \<and>
      notifications (snd (fetch api_one channel_id s)) = notifications s @ [(e, fetch_message)])
   \<and> (api_one (GET (''/channels/'' @ channel_id)) = SuccessResponse channel \<longrightarrow>
      notifications (snd (fetch api_one channel_id s)) = notifications s)
   \<and> (api_ws (GET (''/channels/'' @ channel_id @ ''/jikkyo'')) = ErrorResponse e \<longrightarrow>
      fst (fetchJikkyoWebSocketInfo api_ws channel_id s) = None \<and>
      notifications (snd (fetchJikkyoWebSocketInfo api_ws channel_id s)) =
        notifications s @ [(e, fetchJikkyoWebSocketInfo_message)])
   \<and> (api_ws (GET (''/channels/'' @ channel_id @ ''/jikkyo'')) = SuccessResponse info \<longrightarrow>
      notifications (snd (fetchJikkyoWebSocketInfo api_ws channel_id s)) = notifications s)
   \<and> (api_send (POST (''/channels/'' @ channel_id @ ''/jikkyo/comment'') comment) =
        ErrorResponse e \<longrightarrow>
      fst (sendJikkyoComment api_send channel_id comment s) = None \<and>
      notifications (snd (sendJikkyoComment api_send channel_id comment s)) =
        notifications s @ [(e, sendJikkyoComment_message)])
   \<and> (api_send (POST (''/channels/'' @ channel_id @ ''/jikkyo/comment'') comment) =
        SuccessResponse result \<longrightarrow>
      notifications (snd (sendJikkyoComment api_send channel_id comment s)) = notifications s)"
  by (simp add: fetchAll_error fetchAll_success fetch_error fetch_success
      fetchJikkyoWebSocketInfo_error fetchJikkyoWebSocketInfo_success
      sendJikkyoComment_error sendJikkyoComment_success)

text \<open>
  C1 on a backend that fails every request, and on backends that answer: the failing calls
  each return null with one notification, the answered calls notify nothing.
\<close>

theorem transport_error_null_and_one_notification_witness:
  "fst (fetchAll failing_api no_effects
        :: unit ILiveChannelsList option \<times> string effects) = None
   \<and> notifications (snd (fetchAll failing_api no_effects
        :: unit ILiveChannelsList option \<times> string effects)) =
       [(''Network Error'', fetchAll_message)]
   \<and> fst (fetch failing_api ''gr011'' no_effects
        :: unit ILiveChannel option \<times> string effects) = None
   \<and> notifications (snd (fetch failing_api ''gr011'' no_effects
        :: unit ILiveChannel option \<times> string effects)) =
       [(''Network Error'', fetch_message)]
   \<and> fst (fetchJikkyoWebSocketInfo failing_api ''gr011'' no_effects) = None
   \<and> notifications (snd (fetchJikkyoWebSocketInfo failing_api ''gr011'' no_effects)) =
       [(''Network Error'', fetchJikkyoWebSocketInfo_message)]
   \<and> fst (sendJikkyoComment failing_api ''gr011'' comment_hello no_effects) = None
   \<and> notifications (snd (sendJikkyoComment failing_api ''gr011'' comment_hello no_effects)) =
       [(''Network Error'', sendJikkyoComment_message)]
   \<and> notifications (snd (fetchAll (answering_api directory_gr_bs) no_effects)) = []
   \<and> notifications (snd (fetch (answering_api channel_nhk) ''gr011'' no_effects)) = []
   \<and> notifications
        (snd (fetchJikkyoWebSocketInfo (answering_api no_commentary) ''gr011'' no_effects)) = []
   \<and> notifications
        (snd (sendJikkyoComment (answering_api rate_limited) ''gr011'' comment_hello no_effects))
       = []"
  using
    transport_error_null_and_one_notification
      [of "failing_api :: request \<Rightarrow> (string, unit ILiveChannelsList) APIResponse"
          "''Network Error''" no_effects directory_gr_bs
          "failing_api :: request \<Rightarrow> (string, unit ILiveChannel) APIResponse"
          "''gr011''" channel_nhk failing_api no_commentary failing_api comment_hello rate_limited]
    transport_error_null_and_one_notification
      [of "answering_api directory_gr_bs" "''Network Error''" no_effects directory_gr_bs
          "answering_api channel_nhk" "''gr011''" channel_nhk
          "answering_api no_commentary" no_commentary
          "answering_api rate_limited" comment_hello rate_limited]
  by (simp add: failing_api_error answering_api_success no_effects_def)

subsection \<open>The placeholder channel (C2)\<close>

text \<open>
  C2 as stated asks for both program slots of the placeholder to be null. The source puts
  the placeholder programme \<open>IProgramDefault\<close> in both, so neither is null.
\<close>

theorem placeholder_program_slots_not_null:
  "\<not> (program_present (ILiveChannelDefault ()) = None \<and>
       program_following (ILiveChannelDefault ()) = None)"
  by (simp add: ILiveChannelDefault_def)

text \<open>
  C2, amended. The placeholder has \<open>is_watchable = true\<close> and \<open>viewer_count = 0\<close>, both
  program slots hold the placeholder programme \<open>IProgramDefault\<close>, and it is a value of
  the record of \<open>ILiveChannel\<close>: it is made of the seventeen fields of the interface and
  nothing else.
\<close>

theorem placeholder_live_channel:
  "is_watchable (ILiveChannelDefault IProgramDefault) = True
   \<and> viewer_count (ILiveChannelDefault IProgramDefault) = 0
   \<and> program_present (ILiveChannelDefault IProgramDefault) = Some IProgramDefault
   \<and> program_following (ILiveChannelDefault IProgramDefault) = Some IProgramDefault
   \<and> ILiveChannelDefault IProgramDefault =
       \<lparr>id' = id' (ILiveChannelDefault IProgramDefault),
        display_channel_id = display_channel_id (ILiveChannelDefault IProgramDefault),
        network_id = network_id (ILiveChannelDefault IProgramDefault),
        service_id = service_id (ILiveChannelDefault IProgramDefault),
        transport_stream_id = transport_stream_id (ILiveChannelDefault IProgramDefault),
        remocon_id = remocon_id (ILiveChannelDefault IProgramDefault),
        channel_number = channel_number (ILiveChannelDefault IProgramDefault),
        type = type (ILiveChannelDefault IProgramDefault),
        name = name (ILiveChannelDefault IProgramDefault),
        jikkyo_force = jikkyo_force (ILiveChannelDefault IProgramDefault),
        is_subchannel = is_subchannel (ILiveChannelDefault IProgramDefault),
        is_radiochannel = is_radiochannel (ILiveChannelDefault IProgramDefault),
        is_watchable = is_watchable (ILiveChannelDefault IProgramDefault),
        is_display = is_display (ILiveChannelDefault IProgramDefault),
        viewer_count = viewer_count (ILiveChannelDefault IProgramDefault),
        program_present = program_present (ILiveChannelDefault IProgramDefault),
        program_following = program_following (ILiveChannelDefault IProgramDefault)\<rparr>"
  by (simp add: ILiveChannelDefault_def)

subsection \<open>Negative results of a successful round trip (C3, C4)\<close>

text \<open>
  C3. When the submission of a comment round-trips and the server reports a rejection
  (\<open>is_success = false\<close>), \<open>sendJikkyoComment\<close> returns that very result, not null, and
  notifies nothing.
\<close>

theorem rejected_comment_is_returned:
  assumes "api (POST (''/channels/'' @ channel_id @ ''/jikkyo/comment'') comment) =
           SuccessResponse result"
    and "is_success result = False"
  shows "fst (sendJikkyoComment api channel_id comment s) = Some result
         \<and> fst (sendJikkyoComment api channel_id comment s) \<noteq> None
         \<and> notifications (snd (sendJikkyoComment api channel_id comment s)) = notifications s"
  using assms(1) by (simp add: sendJikkyoComment_success)

text \<open>
  C3 on the result \<open>is_success = false\<close>, \<open>detail = "rate limited"\<close>.
\<close>

theorem rejected_comment_is_returned_witness:
  "is_success rate_limited = False
   \<and> detail rate_limited = ''rate limited''
   \<and> fst (sendJikkyoComment (answering_api rate_limited) ''gr011'' comment_hello no_effects) =
       Some rate_limited
   \<and> notifications
        (snd (sendJikkyoComment (answering_api rate_limited) ''gr011'' comment_hello no_effects))
       = []"
  using rejected_comment_is_returned
    [of "answering_api rate_limited" "''gr011''" comment_hello rate_limited no_effects]
  by (simp add: answering_api_success rate_limited_def no_effects_def)

text \<open>
  C4. When the locate call succeeds with \<open>websocket_url = null\<close>,
  \<open>fetchJikkyoWebSocketInfo\<close> returns that information, which is not the null of a failed
  call, and notifies nothing.
\<close>

theorem absent_websocket_url_is_a_result:
  assumes "api (GET (''/channels/'' @ channel_id @ ''/jikkyo'')) = SuccessResponse info"
    and "websocket_url info = None"
  shows "fst (fetchJikkyoWebSocketInfo api channel_id s) = Some info
         \<and> fst (fetchJikkyoWebSocketInfo api channel_id s) \<noteq> None
         \<and> notifications (snd (fetchJikkyoWebSocketInfo api channel_id s)) = notifications s"
  using assms(1) by (simp add: fetchJikkyoWebSocketInfo_success)

text \<open>
  C4 on a backend that answers with no WebSocket URL.
\<close>

theorem absent_websocket_url_is_a_result_witness:
  "websocket_url no_commentary = None
   \<and> fst (fetchJikkyoWebSocketInfo (answering_api no_commentary) ''gr011'' no_effects) =
       Some no_commentary
   \<and> notifications
        (snd (fetchJikkyoWebSocketInfo (answering_api no_commentary) ''gr011'' no_effects)) = []"
  using absent_websocket_url_is_a_result
    [of "answering_api no_commentary" "''gr011''" no_commentary no_effects]
  by (simp add: answering_api_success no_commentary_def no_effects_def)

subsection \<open>The directory invariant (C5)\<close>




subsection \<open>Unknown channel types (C6)\<close>

text \<open>
  C6 as stated asks for a loud failure on a type tag outside the six. A successful
  response whose only channel carries the tag \<open>pinned\<close> is returned as it is, with no
  notification.
\<close>

theorem unknown_type_tag_accepted:
  "type (hd (GR directory_unknown_tag)) = ''pinned''
   \<and> \<not> is_ChannelType (type (hd (GR directory_unknown_tag)))
   \<and> fetchAll (answering_api directory_unknown_tag) no_effects =
       (Some directory_unknown_tag, \<lparr>requests = [GET ''/channels''], notifications = []\<rparr>)"
  by (simp add: fetchAll_success answering_api_success no_effects_def
      directory_unknown_tag_def is_ChannelType_def ChannelType_def)

text \<open>
  C6, amended. The closed set of type tags is a compile-time type only: when a successful
  response contains a channel whose tag is outside the six, \<open>fetchAll\<close> does not reject
  it; it returns the directory unchanged, that channel included, and notifies nothing.
\<close>

theorem fetchAll_does_not_check_type_tag:
  assumes "api (GET ''/channels'') = SuccessResponse d"
    and "c \<in> set (directory_channels d)"
    and "\<not> is_ChannelType (type c)"
  shows "fst (fetchAll api s) = Some d
         \<and> notifications (snd (fetchAll api s)) = notifications s"
  using assms(1) by (simp add: fetchAll_success)

text \<open>
  C6, amended, on the directory with the tag \<open>pinned\<close>.
\<close>

theorem fetchAll_does_not_check_type_tag_witness:
  "channel_nhk\<lparr>type := ''pinned''\<rparr> \<in> set (directory_channels directory_unknown_tag)
   \<and> \<not> is_ChannelType (type (channel_nhk\<lparr>type := ''pinned''\<rparr>))
   \<and> fst (fetchAll (answering_api directory_unknown_tag) no_effects) =
       Some directory_unknown_tag
   \<and> notifications (snd (fetchAll (answering_api directory_unknown_tag) no_effects)) = []"
  using fetchAll_does_not_check_type_tag
    [of "answering_api directory_unknown_tag" directory_unknown_tag
        "channel_nhk\<lparr>type := ''pinned''\<rparr>" no_effects]
  by (simp add: answering_api_success no_effects_def directory_unknown_tag_def
      directory_channels_def directory_buckets_def is_ChannelType_def ChannelType_def)

subsection \<open>What a notification says (C7)\<close>

text \<open>
  C7 as stated has the notifications of distinct operations tell the operations apart.
  \<open>fetchAll\<close> and \<open>fetch\<close> pass the same message to \<open>showGenericError\<close>: failing with the
  same envelope, the two leave the same notifications.
\<close>

theorem fetchAll_and_fetch_notify_alike:
  "notifications (snd (fetchAll failing_api no_effects
      :: unit ILiveChannelsList option \<times> string effects)) =
   notifications (snd (fetch failing_api ''gr011'' no_effects
      :: unit ILiveChannel option \<times> string effects))"
proof -
  have "fetchAll_message = fetch_message"
    unfolding fetchAll_message_def fetch_message_def by (rule refl)
  then show ?thesis
    by (simp add: fetchAll_error fetch_error failing_api_error no_effects_def)
qed

text \<open>
  C7, amended. On an error each operation notifies with a fixed message that says what
  could not be done. \<open>fetchAll\<close> and \<open>fetch\<close> share one message (the channel information
  could not be retrieved); the message of \<open>fetchJikkyoWebSocketInfo\<close> and the message of
  \<open>sendJikkyoComment\<close> differ from it and from each other. The message thus tells three
  groups of operations apart, not four operations.
\<close>

theorem notification_messages:
  "(api_all (GET ''/channels'') = ErrorResponse e \<longrightarrow>
      notifications (snd (fetchAll api_all s)) = notifications s @ [(e, fetchAll_message)])
   \<and> (api_one (GET (''/channels/'' @ channel_id)) = ErrorResponse e \<longrightarrow>
      notifications (snd (fetch api_one channel_id s)) = notifications s @ [(e, fetch_message)])
   \<and> (api_ws (GET (''/channels/'' @ channel_id @ ''/jikkyo'')) = ErrorResponse e \<longrightarrow>
      notifications (snd (fetchJikkyoWebSocketInfo api_ws channel_id s)) =
        notifications s @ [(e, fetchJikkyoWebSocketInfo_message)])
   \<and> (api_send (POST (''/channels/'' @ channel_id @ ''/jikkyo/comment'') comment) =
        ErrorResponse e \<longrightarrow>
      notifications (snd (sendJikkyoComment api_send channel_id comment s)) =
        notifications s @ [(e, sendJikkyoComment_message)])
   \<and> fetchAll_message = fetch_message
   \<and> fetch_message \<noteq> fetchJikkyoWebSocketInfo_message
   \<and> fetch_message \<noteq> sendJikkyoComment_message
   \<and> fetchJikkyoWebSocketInfo_message \<noteq> sendJikkyoComment_message"
proof -
  have same: "fetchAll_message = fetch_message"
    unfolding fetchAll_message_def fetch_message_def by (rule refl)
  have ws: "fetch_message \<noteq> fetchJikkyoWebSocketInfo_message"
    unfolding fetch_message_def fetchJikkyoWebSocketInfo_message_def
    by (simp only: list.inject char.inject simp_thms)
  have send: "fetch_message \<noteq> sendJikkyoComment_message"
    unfolding fetch_message_def sendJikkyoComment_message_def
    by (simp only: list.inject char.inject simp_thms)
  have ws_send: "fetchJikkyoWebSocketInfo_message \<noteq> sendJikkyoComment_message"
    unfolding fetchJikkyoWebSocketInfo_message_def sendJikkyoComment_message_def
    by (simp only: list.inject char.inject simp_thms)
  from same ws send ws_send show ?thesis
    by (simp add: fetchAll_error fetch_error fetchJikkyoWebSocketInfo_error
        sendJikkyoComment_error)
qed

text \<open>
  C7, amended, on a backend that fails every request.
\<close>

theorem notification_messages_witness:
  "notifications (snd (fetchAll failing_api no_effects
        :: unit ILiveChannelsList option \<times> string effects)) =
       [(''Network Error'', fetchAll_message)]
   \<and> notifications (snd (fetch failing_api ''gr011'' no_effects
        :: unit ILiveChannel option \<times> string effects)) =
       [(''Network Error'', fetch_message)]
   \<and> notifications (snd (fetchJikkyoWebSocketInfo failing_api ''gr011'' no_effects)) =
       [(''Network Error'', fetchJikkyoWebSocketInfo_message)]
   \<and> notifications (snd (sendJikkyoComment failing_api ''gr011'' comment_hello no_effects)) =
       [(''Network Error'', sendJikkyoComment_message)]"
  using notification_messages
      [of "failing_api :: request \<Rightarrow> (string, unit ILiveChannelsList) APIResponse"
          "''Network Error''" no_effects
          "failing_api :: request \<Rightarrow> (string, unit ILiveChannel) APIResponse"
          "''gr011''" failing_api failing_api comment_hello]
  by (simp add: failing_api_error no_effects_def)

subsection \<open>No validation of a comment (C8)\<close>

text \<open>
  C8. \<open>sendJikkyoComment\<close> does not validate the submission: for every comment, the one
  request it issues is the POST to the comment route of the channel with that comment,
  unchanged, as its body; what it returns depends on the response alone (null on an
  error envelope, the payload otherwise); and the only notification it ever emits is the
  one for an error envelope of the client, with the envelope and the message of the
  operation, while a successful round trip leaves the notifications as they were. So
  this layer reports nothing of its own about a malformed comment: such a comment is
  turned down, if at all, by the server.
\<close>

theorem sendJikkyoComment_no_prevalidation:
  "requests (snd (sendJikkyoComment api channel_id comment s)) =
     requests s @ [POST (''/channels/'' @ channel_id @ ''/jikkyo/comment'') comment]
   \<and> fst (sendJikkyoComment api channel_id comment s) =
       (case api (POST (''/channels/'' @ channel_id @ ''/jikkyo/comment'') comment) of
          ErrorResponse e \<Rightarrow> None
        | SuccessResponse result \<Rightarrow> Some result)
   \<and> notifications (snd (sendJikkyoComment api channel_id comment s)) =
       (case api (POST (''/channels/'' @ channel_id @ ''/jikkyo/comment'') comment) of
          ErrorResponse e \<Rightarrow> notifications s @ [(e, sendJikkyoComment_message)]
        | SuccessResponse result \<Rightarrow> notifications s)"
  by (simp add: sendJikkyoComment_def APIClient_post_def showGenericError_def
      split: APIResponse.splits)

text \<open>
  C8 on a comment with an empty text and a negative \<open>vpos\<close>: answered by the server, the
  call posts the comment as it is, returns the answer and notifies nothing; failed by the
  transport, it posts the same request and emits the one notification of the failure.
\<close>

theorem sendJikkyoComment_no_prevalidation_witness:
  "text' comment_malformed = [] \<and> vpos comment_malformed < 0
   \<and> requests (snd (sendJikkyoComment (answering_api rate_limited) ''gr011'' comment_malformed
        no_effects)) = [POST ''/channels/gr011/jikkyo/comment'' comment_malformed]
   \<and> fst (sendJikkyoComment (answering_api rate_limited) ''gr011'' comment_malformed
        no_effects) = Some rate_limited
   \<and> notifications (snd (sendJikkyoComment (answering_api rate_limited) ''gr011''
        comment_malformed no_effects)) = []
   \<and> requests (snd (sendJikkyoComment failing_api ''gr011'' comment_malformed
        no_effects)) = [POST ''/channels/gr011/jikkyo/comment'' comment_malformed]
   \<and> fst (sendJikkyoComment failing_api ''gr011'' comment_malformed no_effects) = None
   \<and> notifications (snd (sendJikkyoComment failing_api ''gr011'' comment_malformed
        no_effects)) = [(''Network Error'', sendJikkyoComment_message)]"
proof -
  have malformed: "text' comment_malformed = [] \<and> vpos comment_malformed < 0"
    by (simp add: comment_malformed_def)
  from sendJikkyoComment_no_prevalidation
      [of "answering_api rate_limited" "''gr011''" comment_malformed no_effects]
  have answered:
    "requests (snd (sendJikkyoComment (answering_api rate_limited) ''gr011'' comment_malformed
        no_effects)) = [POST ''/channels/gr011/jikkyo/comment'' comment_malformed]
     \<and> fst (sendJikkyoComment (answering_api rate_limited) ''gr011'' comment_malformed
        no_effects) = Some rate_limited
     \<and> notifications (snd (sendJikkyoComment (answering_api rate_limited) ''gr011''
        comment_malformed no_effects)) = []"
    by (simp add: answering_api_success no_effects_def)
  from sendJikkyoComment_no_prevalidation
      [of failing_api "''gr011''" comment_malformed no_effects]
  have failed:
    "requests (snd (sendJikkyoComment failing_api ''gr011'' comment_malformed
        no_effects)) = [POST ''/channels/gr011/jikkyo/comment'' comment_malformed]
     \<and> fst (sendJikkyoComment failing_api ''gr011'' comment_malformed no_effects) = None
     \<and> notifications (snd (sendJikkyoComment failing_api ''gr011'' comment_malformed
        no_effects)) = [(''Network Error'', sendJikkyoComment_message)]"
    by (simp add: failing_api_error no_effects_def)
  from malformed answered failed show ?thesis
    apply -
    apply (elim conjE)
    apply (intro conjI)
           apply assumption+
    done
qed

subsection \<open>The payload is passed through (C9)\<close>

text \<open>
  C9. For every response that is not an error, each of the four operations returns the
  payload of the response itself: nothing is transformed, filtered or validated on the
  way to the caller.
\<close>

theorem payload_returned_as_received:
  "(api_all (GET ''/channels'') = SuccessResponse directory \<longrightarrow>
      fst (fetchAll api_all s) = Some directory)
   \<and> (api_one (GET (''/channels/'' @ channel_id)) = SuccessResponse channel \<longrightarrow>
      fst (fetch api_one channel_id s) = Some channel)
   \<and> (api_ws (GET (''/channels/'' @ channel_id @ ''/jikkyo'')) = SuccessResponse info \<longrightarrow>
      fst (fetchJikkyoWebSocketInfo api_ws channel_id s) = Some info)
   \<and> (api_send (POST (''/channels/'' @ channel_id @ ''/jikkyo/comment'') comment) =
        SuccessResponse result \<longrightarrow>
      fst (sendJikkyoComment api_send channel_id comment s) = Some result)"
  by (simp add: fetchAll_success fetch_success fetchJikkyoWebSocketInfo_success
      sendJikkyoComment_success)

text \<open>
  C9 on a directory, a channel, a gateway information and a comment result.
\<close>

theorem payload_returned_as_received_witness:
  "fst (fetchAll (answering_api directory_gr_bs) no_effects) = Some directory_gr_bs
   \<and> fst (fetch (answering_api channel_nhk) ''gr011'' no_effects) = Some channel_nhk
   \<and> fst (fetchJikkyoWebSocketInfo (answering_api no_commentary) ''gr011'' no_effects) =
       Some no_commentary
   \<and> fst (sendJikkyoComment (answering_api rate_limited) ''gr011'' comment_hello no_effects) =
       Some rate_limited"
  using payload_returned_as_received
    [of "answering_api directory_gr_bs" directory_gr_bs no_effects
        "answering_api channel_nhk" "''gr011''" channel_nhk
        "answering_api no_commentary" no_commentary
        "answering_api rate_limited" comment_hello rate_limited]
  by (simp add: answering_api_success)

subsection \<open>The request path (C10)\<close>

text \<open>
  C10. For every channel identifier, the three operations on a channel build the path by
  putting the identifier as it is after \<open>/channels/\<close> (followed by \<open>/jikkyo\<close> or
  \<open>/jikkyo/comment\<close>), with no validation, encoding or escaping. An identifier with a
  slash therefore changes the route: \<open>fetch\<close> on an identifier that ends in \<open>/jikkyo\<close>
  issues the request of \<open>fetchJikkyoWebSocketInfo\<close> on the identifier before it.
\<close>

theorem channel_id_interpolated_verbatim:
  "requests (snd (fetch api_one channel_id s)) =
     requests s @ [GET (''/channels/'' @ channel_id)]
   \<and> requests (snd (fetchJikkyoWebSocketInfo api_ws channel_id s)) =
       requests s @ [GET (''/channels/'' @ channel_id @ ''/jikkyo'')]
   \<and> requests (snd (sendJikkyoComment api_send channel_id comment s)) =
       requests s @ [POST (''/channels/'' @ channel_id @ ''/jikkyo/comment'') comment]
   \<and> requests (snd (fetch api_one (channel_id @ ''/jikkyo'') s)) =
       requests (snd (fetchJikkyoWebSocketInfo api_ws channel_id s))"
  by (simp add: fetch_requests fetchJikkyoWebSocketInfo_requests sendJikkyoComment_requests)

text \<open>
  C10 on the identifier \<open>gr011/jikkyo\<close>: \<open>fetch\<close> requests the gateway route of
  \<open>gr011\<close>.
\<close>

theorem channel_id_interpolated_verbatim_witness:
  "requests (snd (fetch (answering_api channel_nhk) ''gr011/jikkyo'' no_effects)) =
     [GET ''/channels/gr011/jikkyo'']
   \<and> requests (snd (fetchJikkyoWebSocketInfo (answering_api no_commentary) ''gr011''
        no_effects)) = [GET ''/channels/gr011/jikkyo'']"
proof -
  note inst = channel_id_interpolated_verbatim
      [of "answering_api channel_nhk" "''gr011''" no_effects
          "answering_api no_commentary" "answering_api rate_limited" comment_hello]
  from inst [THEN conjunct2, THEN conjunct1] have located:
    "requests (snd (fetchJikkyoWebSocketInfo (answering_api no_commentary) ''gr011''
       no_effects)) = [GET ''/channels/gr011/jikkyo'']"
    by (simp add: no_effects_def)
  from inst [THEN conjunct2, THEN conjunct2, THEN conjunct2] have
    "requests (snd (fetch (answering_api channel_nhk) ''gr011/jikkyo'' no_effects)) =
     requests (snd (fetchJikkyoWebSocketInfo (answering_api no_commentary) ''gr011''
       no_effects))"
    by simp
  also note located
  finally show ?thesis
    using located by (rule conjI)
qed

end
